theory Spec2Isabelle
  imports Complex_Main "HOL-Library.Signed_Division"
begin

section \<open>Time values of package time\<close>

text \<open>
  The utilization engine of \<^verbatim>\<open>main.go\<close> reads its timestamps through a handful of
  methods of Go's \<^verbatim>\<open>time.Time\<close>: \<^verbatim>\<open>Hour\<close>, \<^verbatim>\<open>Minute\<close>, \<^verbatim>\<open>Weekday\<close>, \<^verbatim>\<open>Sub\<close>,
  \<^verbatim>\<open>AddDate\<close>, \<^verbatim>\<open>Format("2006-01-02")\<close> and the constructor \<^verbatim>\<open>time.Date\<close>.
  A time value is an instant together with a location. The instant is kept in
  nanoseconds since 1970-01-01T00:00:00Z, the location as a fixed offset in seconds east
  of UTC (what \<^verbatim>\<open>time.Parse\<close> records for an RFC 3339 offset, and UTC for a date-only
  value). Locations with daylight-saving transitions are outside this model.

  A calendar date (year, month, day) is represented by its day number, the number of
  whole days between 1970-01-01 and that date on the wall clock of the location. Reading
  \<^verbatim>\<open>Year()\<close>, \<^verbatim>\<open>Month()\<close>, \<^verbatim>\<open>Day()\<close> and passing them back to \<^verbatim>\<open>time.Date\<close>
  names the same day, and \<^verbatim>\<open>Format("2006-01-02")\<close> renders different days as different
  strings, so the day number stands for all three.
\<close>

record Time =
  unixNano :: int
  zoneOffset :: int

definition nsPerSecond :: int where
  "nsPerSecond = 1000000000"

definition nsPerMinute :: int where
  "nsPerMinute = 60000000000"

definition nsPerHour :: int where
  "nsPerHour = 3600000000000"

definition nsPerDay :: int where
  "nsPerDay = 86400000000000"

text \<open>Nanoseconds on the wall clock of the value's own location.\<close>

definition wallNano :: "Time \<Rightarrow> int" where
  "wallNano t = unixNano t + zoneOffset t * nsPerSecond"

definition dayNumber :: "Time \<Rightarrow> int" where
  "dayNumber t = wallNano t div nsPerDay"

definition Time_Hour :: "Time \<Rightarrow> int" where
  "Time_Hour t = (wallNano t div nsPerHour) mod 24"

definition Time_Minute :: "Time \<Rightarrow> int" where
  "Time_Minute t = (wallNano t div nsPerMinute) mod 60"

text \<open>\<^verbatim>\<open>type Weekday int\<close> with \<^verbatim>\<open>Sunday = 0\<close>; 1970-01-01 was a Thursday.\<close>

type_synonym Weekday = int

definition Sunday :: Weekday where
  "Sunday = 0"

definition Monday :: Weekday where
  "Monday = 1"

definition Time_Weekday :: "Time \<Rightarrow> Weekday" where
  "Time_Weekday t = (dayNumber t + 4) mod 7"

text \<open>
  \<^verbatim>\<open>time.Date(year, month, day, hour, min, sec, nsec, loc)\<close>, the date given by its day
  number. Go normalises an hour outside 0..23 (and likewise minutes, seconds and
  nanoseconds out of range) by carrying into the next unit, which the sum does too.
\<close>

definition Time_Date :: "int \<Rightarrow> int \<Rightarrow> int \<Rightarrow> int \<Rightarrow> int \<Rightarrow> int \<Rightarrow> Time" where
  "Time_Date day hour minute sec nsec loc =
     \<lparr>unixNano = day * nsPerDay + hour * nsPerHour + minute * nsPerMinute + sec * nsPerSecond
          + nsec - loc * nsPerSecond,
      zoneOffset = loc\<rparr>"

text \<open>\<^verbatim>\<open>t.AddDate(0, 0, days)\<close>: the same wall clock reading \<open>days\<close> days later.\<close>

definition Time_AddDate :: "Time \<Rightarrow> int \<Rightarrow> Time" where
  "Time_AddDate t days = t\<lparr>unixNano := unixNano t + days * nsPerDay\<rparr>"

text \<open>\<^verbatim>\<open>t.Format("2006-01-02")\<close> and \<^verbatim>\<open>time.Parse("2006-01-02", key)\<close> on such a key.\<close>

definition Time_Format_date :: "Time \<Rightarrow> int" where
  "Time_Format_date t = dayNumber t"

definition Time_Parse_date :: "int \<Rightarrow> Time" where
  "Time_Parse_date key = \<lparr>unixNano = key * nsPerDay, zoneOffset = 0\<rparr>"

text \<open>
  \<^verbatim>\<open>time.Duration\<close> is an int64 count of nanoseconds; \<^verbatim>\<open>t.Sub(u)\<close> saturates at the
  largest and smallest duration instead of wrapping.
\<close>

definition maxDuration :: int where
  "maxDuration = 9223372036854775807"

definition minDuration :: int where
  "minDuration = - 9223372036854775808"

definition Time_Sub :: "Time \<Rightarrow> Time \<Rightarrow> int" where
  "Time_Sub t u =
     (let d = unixNano t - unixNano u
      in if d < minDuration then minDuration
         else if maxDuration < d then maxDuration
         else d)"

text \<open>
  \<^verbatim>\<open>d.Hours()\<close> splits off the whole hours with Go's truncating division and adds the
  remainder as a fraction. The result is a float64 in Go; here hours are exact rationals,
  so rounding of float64 arithmetic is not part of the model.
\<close>

definition Duration_Hours :: "int \<Rightarrow> rat" where
  "Duration_Hours d =
     (let hour = d sdiv nsPerHour;
          nsec = d smod nsPerHour
      in of_int hour + of_int nsec / 3600000000000)"

section \<open>Data model of \<^verbatim>\<open>main.go\<close>\<close>

record UtilizationConfig =
  StartHour :: int
  EndHour :: int
  ShowDailyStats :: bool
  ShowWeeklyStats :: bool

record Booking =
  Title :: string
  StartTime :: Time
  EndTime :: Time
  Duration :: int

record DayStats =
  Date :: Time
  Bookings :: "Booking list"
  TotalHours :: rat
  Utilization :: rat

text \<open>
  \<^verbatim>\<open>WeekStats\<close> has fields \<^verbatim>\<open>TotalHours\<close> and \<^verbatim>\<open>Utilization\<close> of its own; they carry
  the prefix \<open>Week\<close> here to keep them apart from those of \<^verbatim>\<open>DayStats\<close>.
\<close>

record WeekStats =
  WeekStart :: Time
  WeekEnd :: Time
  WeekTotalHours :: rat
  WeekUtilization :: rat
  Days :: "DayStats list"

section \<open>The interval clipper\<close>

definition calculateBookingHoursInRange :: "Booking \<Rightarrow> int \<Rightarrow> int \<Rightarrow> rat" where
  "calculateBookingHoursInRange booking startHour endHour =
     (if Time_Hour (StartTime booking) = 0 \<and> Time_Minute (StartTime booking) = 0
      then of_int (endHour - startHour)
      else
        let effectiveStart = StartTime booking;
            effectiveEnd = EndTime booking;
            effectiveStart =
              (if Time_Hour effectiveStart < startHour
               then Time_Date (dayNumber effectiveStart) startHour 0 0 0 (zoneOffset effectiveStart)
               else effectiveStart);
            effectiveEnd =
              (if endHour < Time_Hour effectiveEnd
               then Time_Date (dayNumber effectiveEnd) endHour 0 0 0 (zoneOffset effectiveEnd)
               else effectiveEnd);
            duration = Time_Sub effectiveEnd effectiveStart;
            hours = Duration_Hours duration
        in if hours < 0 then 0 else hours)"

section \<open>The booking normalizer\<close>

text \<open>
  The raw records are \<^verbatim>\<open>calendar.Event\<close> values of the Google Calendar client library.
  Of an event the code reads \<^verbatim>\<open>Start\<close> and \<^verbatim>\<open>End\<close> (pointers, \<^verbatim>\<open>nil\<close> when the marker
  is absent), the two strings \<^verbatim>\<open>DateTime\<close> and \<^verbatim>\<open>Date\<close> of each marker, and
  \<^verbatim>\<open>Summary\<close>. The field \<^verbatim>\<open>Date\<close> of a marker is called \<open>EventDate\<close> here, since
  \<^verbatim>\<open>DayStats\<close> has a field \<^verbatim>\<open>Date\<close> as well.
\<close>

record EventDateTime =
  DateTime :: string
  EventDate :: string

record Event =
  Start :: "EventDateTime option"
  End :: "EventDateTime option"
  Summary :: string

text \<open>
  \<^verbatim>\<open>time.Parse\<close> belongs to the standard library. The normalizer takes the two parsers
  it calls as arguments: \<open>parseRFC3339\<close> for \<^verbatim>\<open>time.Parse(time.RFC3339, s)\<close> and
  \<open>parseDate\<close> for \<^verbatim>\<open>time.Parse("2006-01-02", s)\<close>, a returned error being \<open>None\<close>.
  The function below is the body of the loop: it takes the slice built so far and one
  event, and every \<^verbatim>\<open>continue\<close> returns the slice unchanged.
\<close>

definition parseBookings_item ::
  "(string \<Rightarrow> Time option) \<Rightarrow> (string \<Rightarrow> Time option) \<Rightarrow> Booking list \<Rightarrow> Event \<Rightarrow> Booking list"
where
  "parseBookings_item parseRFC3339 parseDate bookings item =
     (case Start item of
        None \<Rightarrow> bookings
      | Some itemStart \<Rightarrow>
     (case End item of
        None \<Rightarrow> bookings
      | Some itemEnd \<Rightarrow>
     (case (if DateTime itemStart \<noteq> [] then parseRFC3339 (DateTime itemStart)
            else parseDate (EventDate itemStart)) of
        None \<Rightarrow> bookings
      | Some startTime \<Rightarrow>
     (case (if DateTime itemEnd \<noteq> [] then parseRFC3339 (DateTime itemEnd)
            else parseDate (EventDate itemEnd)) of
        None \<Rightarrow> bookings
      | Some endTime \<Rightarrow>
          let title = Summary item;
              title = (if title = [] then ''(No title)'' else title);
              duration = Time_Sub endTime startTime
          in bookings @
               [\<lparr>Title = title, StartTime = startTime, EndTime = endTime,
                 Duration = duration\<rparr>]))))"

definition parseBookings ::
  "(string \<Rightarrow> Time option) \<Rightarrow> (string \<Rightarrow> Time option) \<Rightarrow> Event list \<Rightarrow> Booking list"
where
  "parseBookings parseRFC3339 parseDate events =
     foldl (parseBookings_item parseRFC3339 parseDate) [] events"

text \<open>
  The normalizer as the specification words it: a record is well formed when it has both
  markers and the value of each marker parses; a well-formed record yields one booking,
  any other record yields nothing.
\<close>

definition markerTime ::
  "(string \<Rightarrow> Time option) \<Rightarrow> (string \<Rightarrow> Time option) \<Rightarrow> EventDateTime \<Rightarrow> Time option"
where
  "markerTime parseRFC3339 parseDate marker =
     (if DateTime marker \<noteq> [] then parseRFC3339 (DateTime marker)
      else parseDate (EventDate marker))"

definition wellFormedRecord ::
  "(string \<Rightarrow> Time option) \<Rightarrow> (string \<Rightarrow> Time option) \<Rightarrow> Event \<Rightarrow> bool"
where
  "wellFormedRecord parseRFC3339 parseDate ev =
     (case (Start ev, End ev) of
        (Some s, Some e) \<Rightarrow>
          markerTime parseRFC3339 parseDate s \<noteq> None \<and>
          markerTime parseRFC3339 parseDate e \<noteq> None
      | _ \<Rightarrow> False)"

definition bookingOfRecord ::
  "(string \<Rightarrow> Time option) \<Rightarrow> (string \<Rightarrow> Time option) \<Rightarrow> Event \<Rightarrow> Booking"
where
  "bookingOfRecord parseRFC3339 parseDate ev =
     (let startTime = the (markerTime parseRFC3339 parseDate (the (Start ev)));
          endTime = the (markerTime parseRFC3339 parseDate (the (End ev)))
      in \<lparr>Title = (if Summary ev = [] then ''(No title)'' else Summary ev),
          StartTime = startTime, EndTime = endTime,
          Duration = Time_Sub endTime startTime\<rparr>)"

section \<open>The daily aggregator\<close>

text \<open>
  \<^verbatim>\<open>dayMap[dateKey] = append(dayMap[dateKey], booking)\<close>: a key that is not in the map
  reads as the empty slice.
\<close>

definition appendAt :: "('k \<rightharpoonup> Booking list) \<Rightarrow> 'k \<Rightarrow> Booking \<Rightarrow> ('k \<rightharpoonup> Booking list)" where
  "appendAt m key booking =
     m(key \<mapsto> (case m key of None \<Rightarrow> [] | Some bs \<Rightarrow> bs) @ [booking])"

definition dayMapOf :: "Booking list \<Rightarrow> (int \<rightharpoonup> Booking list)" where
  "dayMapOf bookings =
     foldl (\<lambda>dayMap booking.
              let dateKey = Time_Format_date (StartTime booking)
              in appendAt dayMap dateKey booking)
       Map.empty bookings"


definition calculateDailyStats ::
  "int list \<Rightarrow> Booking list \<Rightarrow> UtilizationConfig \<Rightarrow> DayStats list"
where
  "calculateDailyStats order bookings config =
     (let dayMap = dayMapOf bookings
      in foldl (\<lambda>dailyStats dateKey.
           case dayMap dateKey of
             None \<Rightarrow> dailyStats
           | Some dayBookings \<Rightarrow>
               let date = Time_Parse_date dateKey;
                   totalHours =
                     foldl (\<lambda>totalHours booking.
                              let bookingHours =
                                    calculateBookingHoursInRange booking
                                      (StartHour config) (EndHour config)
                              in totalHours + bookingHours)
                       0 dayBookings;
                   availableHours = of_int (EndHour config - StartHour config);
                   utilization = (totalHours / availableHours) * 100
               in dailyStats @
                    [\<lparr>Date = date, Bookings = dayBookings, TotalHours = totalHours,
                      Utilization = utilization\<rparr>])
         [] order)"

section \<open>The weekly aggregator\<close>

definition getWeekStart :: "Time \<Rightarrow> Time" where
  "getWeekStart date =
     (let weekday = Time_Weekday date;
          daysToSubtract = weekday - Monday;
          daysToSubtract = (if daysToSubtract < 0 then daysToSubtract + 7 else daysToSubtract)
      in Time_AddDate date (- daysToSubtract))"

definition weekMapOf :: "Booking list \<Rightarrow> (int \<rightharpoonup> Booking list)" where
  "weekMapOf bookings =
     foldl (\<lambda>weekMap booking.
              let weekStart = getWeekStart (StartTime booking);
                  weekKey = Time_Format_date weekStart
              in appendAt weekMap weekKey booking)
       Map.empty bookings"

text \<open>
  The weekly aggregator ranges over its own map and, for every week, calls the daily
  aggregator, which ranges over a map again: \<open>weekOrder\<close> is the order of the outer loop
  and \<open>dayOrder weekKey\<close> the order of the inner call made for the week \<open>weekKey\<close>.
\<close>

definition calculateWeeklyStats ::
  "int list \<Rightarrow> (int \<Rightarrow> int list) \<Rightarrow> Booking list \<Rightarrow> UtilizationConfig \<Rightarrow> WeekStats list"
where
  "calculateWeeklyStats weekOrder dayOrder bookings config =
     (let weekMap = weekMapOf bookings
      in foldl (\<lambda>weeklyStats weekKey.
           case weekMap weekKey of
             None \<Rightarrow> weeklyStats
           | Some weekBookings \<Rightarrow>
               let weekStart = Time_Parse_date weekKey;
                   weekEnd = Time_AddDate weekStart 6;
                   dailyStats = calculateDailyStats (dayOrder weekKey) weekBookings config;
                   totalHours =
                     foldl (\<lambda>totalHours day. totalHours + TotalHours day) 0 dailyStats;
                   availableHours = of_int (7 * (EndHour config - StartHour config));
                   utilization = (totalHours / availableHours) * 100
               in weeklyStats @
                    [\<lparr>WeekStart = weekStart, WeekEnd = weekEnd, WeekTotalHours = totalHours,
                      WeekUtilization = utilization, Days = dailyStats\<rparr>])
         [] weekOrder)"

section \<open>Example data\<close>

text \<open>
  Day 19723 is Monday 2024-01-01. \<open>clock day hour minute\<close> is that wall clock reading
  in UTC, and \<open>booking start end\<close> the booking the normalizer builds from two parsed
  timestamps of an event without a title.
\<close>

definition clock :: "int \<Rightarrow> int \<Rightarrow> int \<Rightarrow> Time" where
  "clock day hour minute = Time_Date day hour minute 0 0 0"

definition booking :: "Time \<Rightarrow> Time \<Rightarrow> Booking" where
  "booking startTime endTime =
     \<lparr>Title = ''(No title)'', StartTime = startTime, EndTime = endTime,
      Duration = Time_Sub endTime startTime\<rparr>"

definition defaultConfig :: UtilizationConfig where
  "defaultConfig =
     \<lparr>StartHour = 6, EndHour = 18, ShowDailyStats = True, ShowWeeklyStats = True\<rparr>"

text \<open>
  The events of a small calendar and the two parsers restricted to the strings that occur
  in it: a timed event, an event without an end marker, an event whose start timestamp
  does not parse, and a date-only event without a title.
\<close>

definition exampleRFC3339 :: "string \<Rightarrow> Time option" where
  "exampleRFC3339 s =
     (if s = ''2024-01-01T08:00:00Z'' then Some (clock 19723 8 0)
      else if s = ''2024-01-01T10:00:00Z'' then Some (clock 19723 10 0)
      else None)"

definition exampleDate :: "string \<Rightarrow> Time option" where
  "exampleDate s =
     (if s = ''2024-01-02'' then Some (clock 19724 0 0)
      else if s = ''2024-01-03'' then Some (clock 19725 0 0)
      else None)"

definition exampleEvents :: "Event list" where
  "exampleEvents =
     [\<lparr>Start = Some \<lparr>DateTime = ''2024-01-01T08:00:00Z'', EventDate = []\<rparr>,
       End = Some \<lparr>DateTime = ''2024-01-01T10:00:00Z'', EventDate = []\<rparr>,
       Summary = ''Coaching''\<rparr>,
      \<lparr>Start = Some \<lparr>DateTime = ''2024-01-01T08:00:00Z'', EventDate = []\<rparr>,
       End = None,
       Summary = ''No end''\<rparr>,
      \<lparr>Start = Some \<lparr>DateTime = ''yesterday'', EventDate = ''2024-01-02''\<rparr>,
       End = Some \<lparr>DateTime = ''2024-01-01T10:00:00Z'', EventDate = []\<rparr>,
       Summary = ''Bad start''\<rparr>,
      \<lparr>Start = Some \<lparr>DateTime = [], EventDate = ''2024-01-02''\<rparr>,
       End = Some \<lparr>DateTime = [], EventDate = ''2024-01-03''\<rparr>,
       Summary = []\<rparr>]"

text \<open>
  The week of the specification's example: two hours on Monday morning and an all-day
  entry on Tuesday.
\<close>

definition exampleBookings :: "Booking list" where
  "exampleBookings =
     [booking (clock 19723 8 0) (clock 19723 10 0),
      booking (clock 19724 0 0) (clock 19725 0 0)]"

definition exampleWeeks :: "WeekStats list" where
  "exampleWeeks =
     calculateWeeklyStats [19723] (\<lambda>weekKey. [19724, 19723]) exampleBookings defaultConfig"

section \<open>Facts about times and durations\<close>

lemmas time_defs = Time_Date_def Time_Hour_def Time_Minute_def wallNano_def nsPerDay_def
  nsPerHour_def nsPerMinute_def nsPerSecond_def Time_Sub_def dayNumber_def minDuration_def
  maxDuration_def Time_Weekday_def Time_AddDate_def Time_Format_date_def Time_Parse_date_def
  Monday_def Sunday_def clock_def booking_def

lemma Duration_Hours_eq: "Duration_Hours d = of_int d / 3600000000000"
proof -
  have "d sdiv nsPerHour * nsPerHour + d smod nsPerHour = d"
    by (rule sdiv_mult_smod_eq)
  then have "(of_int (d sdiv nsPerHour * nsPerHour + d smod nsPerHour) :: rat) = of_int d"
    by simp
  then have "(of_int (d sdiv nsPerHour) :: rat) * 3600000000000 + of_int (d smod nsPerHour)
      = of_int d"
    by (simp add: nsPerHour_def)
  then show ?thesis
    by (simp add: Duration_Hours_def Let_def field_simps)
qed

lemma Duration_Hours_nonneg: "0 \<le> Duration_Hours d \<longleftrightarrow> 0 \<le> d"
  by (simp add: Duration_Hours_eq zero_le_divide_iff)

lemma weekday_step: "0 \<le> (w::int) \<Longrightarrow> w < 7 \<Longrightarrow>
  (if w - 1 < 0 then w - 1 + 7 else w - 1) = (w - 1 + 7) mod 7"
  by presburger

lemma Time_Weekday_range: "0 \<le> Time_Weekday t \<and> Time_Weekday t < 7"
  by (simp add: Time_Weekday_def)

lemma getWeekStart_eq:
  "getWeekStart date = Time_AddDate date (- ((Time_Weekday date - Monday + 7) mod 7))"
proof -
  have "(if Time_Weekday date - 1 < 0 then Time_Weekday date - 1 + 7
      else Time_Weekday date - 1) = (Time_Weekday date - 1 + 7) mod 7"
    using Time_Weekday_range [of date] by (intro weekday_step) simp_all
  then show ?thesis
    by (simp add: getWeekStart_def Let_def Monday_def)
qed

lemma dayNumber_AddDate: "dayNumber (Time_AddDate t n) = dayNumber t + n"
  by (simp add: dayNumber_def Time_AddDate_def wallNano_def nsPerDay_def)

lemma hour_of_day_bounds:
  fixes w q r d m :: int
  assumes "w = q * 3600000000000 + r" and "q = d * 24 + m"
    and "0 \<le> r" and "r < 3600000000000"
  shows "d * 86400000000000 + m * 3600000000000 \<le> w
    \<and> w < d * 86400000000000 + (m + 1) * 3600000000000"
  using assms by simp

lemma wallNano_hour_bounds:
  "dayNumber t * nsPerDay + Time_Hour t * nsPerHour \<le> wallNano t
   \<and> wallNano t < dayNumber t * nsPerDay + (Time_Hour t + 1) * nsPerHour"
proof -
  define q where "q = wallNano t div 3600000000000"
  have day: "wallNano t div 86400000000000 = q div 24"
    unfolding q_def by (simp add: zdiv_zmult2_eq [symmetric])
  have "wallNano t = q * 3600000000000 + wallNano t mod 3600000000000"
    unfolding q_def by simp
  moreover have "q = (q div 24) * 24 + q mod 24"
    by simp
  moreover have "0 \<le> wallNano t mod 3600000000000"
    by simp
  moreover have "wallNano t mod 3600000000000 < 3600000000000"
    by simp
  ultimately have "(q div 24) * 86400000000000 + (q mod 24) * 3600000000000 \<le> wallNano t
      \<and> wallNano t < (q div 24) * 86400000000000 + (q mod 24 + 1) * 3600000000000"
    by (rule hour_of_day_bounds)
  then show ?thesis
    unfolding dayNumber_def Time_Hour_def nsPerDay_def nsPerHour_def day q_def [symmetric] .
qed

lemma unixNano_hour_bounds:
  "dayNumber t * nsPerDay + Time_Hour t * nsPerHour - zoneOffset t * nsPerSecond \<le> unixNano t
   \<and> unixNano t
       < dayNumber t * nsPerDay + (Time_Hour t + 1) * nsPerHour - zoneOffset t * nsPerSecond"
  using wallNano_hour_bounds [of t] by (simp add: wallNano_def)

lemma hours_of_backward_interval:
  assumes "unixNano t \<le> unixNano u"
  shows "(if Duration_Hours (Time_Sub t u) < 0 then 0 else Duration_Hours (Time_Sub t u)) = 0"
proof -
  have "Time_Sub t u \<le> 0"
    using assms by (simp add: Time_Sub_def Let_def minDuration_def maxDuration_def)
  then have "Duration_Hours (Time_Sub t u) \<le> 0"
    by (simp add: Duration_Hours_eq divide_le_0_iff)
  then show ?thesis by auto
qed

section \<open>Facts about the loops and the maps\<close>

lemma foldl_collect:
  "foldl (\<lambda>acc k. case f k of None \<Rightarrow> acc | Some v \<Rightarrow> acc @ [g k v]) acc ks
     = acc @ List.map_filter (\<lambda>k. map_option (g k) (f k)) ks"
  by (induction ks arbitrary: acc) (simp_all add: List.map_filter_simps split: option.splits)

lemma foldl_add: "foldl (\<lambda>total x. total + h x) (a::rat) xs = a + sum_list (map h xs)"
  by (induction xs arbitrary: a) (simp_all add: add.assoc)

lemma foldl_appendAt:
  "foldl (\<lambda>m b. appendAt m (key b) b) m0 bs k =
     (if filter (\<lambda>b. key b = k) bs = [] then m0 k
      else Some ((case m0 k of None \<Rightarrow> [] | Some l \<Rightarrow> l) @ filter (\<lambda>b. key b = k) bs))"
proof (induction bs arbitrary: m0)
  case Nil
  show ?case by simp
next
  case (Cons b bs)
  show ?case
    by (simp add: Cons.IH) (simp add: appendAt_def)
qed


lemma weekMapOf_lookup:
  "weekMapOf bs k =
     (if filter (\<lambda>b. Time_Format_date (getWeekStart (StartTime b)) = k) bs = [] then None
      else Some (filter (\<lambda>b. Time_Format_date (getWeekStart (StartTime b)) = k) bs))"
  unfolding weekMapOf_def Let_def by (simp add: foldl_appendAt)


lemma parseBookings_item_cases:
  "parseBookings_item P D acc ev =
     (if wellFormedRecord P D ev then acc @ [bookingOfRecord P D ev] else acc)"
  by (simp add: parseBookings_item_def wellFormedRecord_def bookingOfRecord_def
      markerTime_def Let_def split: option.splits)

lemma parseBookings_loop:
  "foldl (parseBookings_item P D) acc evs
     = acc @ map (bookingOfRecord P D) (filter (wellFormedRecord P D) evs)"
  by (induction evs arbitrary: acc) (simp_all add: parseBookings_item_cases)

lemma set_map_filter: "set (List.map_filter f xs) = {y. \<exists>x\<in>set xs. f x = Some y}"
  by (induction xs) (auto simp add: List.map_filter_simps split: option.splits)






lemma calculateWeeklyStats_entry:
  assumes "w \<in> set (calculateWeeklyStats weekOrder dayOrder bookings config)"
  shows "\<exists>weekKey weekBookings.
     weekKey \<in> set weekOrder \<and> weekMapOf bookings weekKey = Some weekBookings \<and>
     Days w = calculateDailyStats (dayOrder weekKey) weekBookings config \<and>
     WeekTotalHours w = sum_list (map TotalHours (Days w)) \<and>
     WeekUtilization w
       = (WeekTotalHours w / of_int (7 * (EndHour config - StartHour config))) * 100 \<and>
     WeekStart w = Time_Parse_date weekKey \<and>
     WeekEnd w = Time_AddDate (WeekStart w) 6"
  using assms unfolding calculateWeeklyStats_def Let_def
  by (auto simp add: foldl_add foldl_collect [where acc = "[]", simplified] set_map_filter)

section \<open>The example week\<close>

lemmas example_defs = exampleBookings_def defaultConfig_def calculateWeeklyStats_def
  weekMapOf_def appendAt_def getWeekStart_def calculateDailyStats_def dayMapOf_def
  calculateBookingHoursInRange_def Let_def Duration_Hours_eq

lemma exampleWeeks_length: "length exampleWeeks = 1"
  by (simp add: exampleWeeks_def example_defs time_defs)

lemma exampleWeeks_days: "map TotalHours (Days (hd exampleWeeks)) = [12, 2]"
  by (simp add: exampleWeeks_def example_defs time_defs)

lemma exampleWeeks_total: "WeekTotalHours (hd exampleWeeks) = 14"
  by (simp add: exampleWeeks_def example_defs time_defs)

lemma exampleWeeks_hd: "hd exampleWeeks \<in> set exampleWeeks"
proof -
  have "exampleWeeks \<noteq> []"
    using exampleWeeks_length by auto
  then show ?thesis by (rule hd_in_set)
qed

section \<open>The clipper on all-day bookings\<close>

text \<open>
  Claim C4. A booking whose start reads hour 0 and minute 0 on its wall clock is taken
  for an all-day entry: \<^verbatim>\<open>calculateBookingHoursInRange\<close> returns
  \<open>endHour - startHour\<close> for it, whatever its end timestamp is.
\<close>

theorem all_day_booking_counts_full_window:
  "Time_Hour (StartTime b) = 0 \<Longrightarrow> Time_Minute (StartTime b) = 0 \<Longrightarrow>
   calculateBookingHoursInRange (b\<lparr>EndTime := anyEnd\<rparr>) startHour endHour
     = of_int (endHour - startHour)"
  by (simp add: calculateBookingHoursInRange_def)

theorem all_day_booking_counts_full_window_witness:
  "Time_Hour (StartTime (booking (clock 19724 0 0) (clock 19725 0 0))) = 0
   \<and> Time_Minute (StartTime (booking (clock 19724 0 0) (clock 19725 0 0))) = 0
   \<and> calculateBookingHoursInRange
        ((booking (clock 19724 0 0) (clock 19725 0 0))\<lparr>EndTime := clock 19723 9 30\<rparr>) 6 18 = 12"
proof -
  have h: "Time_Hour (StartTime (booking (clock 19724 0 0) (clock 19725 0 0))) = 0"
    by (simp add: time_defs)
  have m: "Time_Minute (StartTime (booking (clock 19724 0 0) (clock 19725 0 0))) = 0"
    by (simp add: time_defs)
  show ?thesis
    using h m all_day_booking_counts_full_window [OF h m, of "clock 19723 9 30" 6 18]
    by simp
qed

section \<open>The clipper never returns a negative number\<close>



section \<open>The start of the week\<close>

text \<open>
  Claim C6. \<^verbatim>\<open>getWeekStart\<close> subtracts \<open>(weekday - Monday + 7) mod 7\<close> days from its
  argument. The result falls on a Monday, at most six days back and never later than the
  argument: a Monday is mapped to its own calendar day, a Sunday to the day six days
  earlier.
\<close>

theorem getWeekStart_rounds_down_to_Monday:
  "getWeekStart date = Time_AddDate date (- ((Time_Weekday date - Monday + 7) mod 7))
   \<and> Time_Weekday (getWeekStart date) = Monday
   \<and> dayNumber date - 6 \<le> dayNumber (getWeekStart date)
   \<and> dayNumber (getWeekStart date) \<le> dayNumber date
   \<and> (Time_Weekday date = Monday \<longrightarrow> dayNumber (getWeekStart date) = dayNumber date)
   \<and> (Time_Weekday date = Sunday \<longrightarrow> dayNumber (getWeekStart date) = dayNumber date - 6)"
proof -
  have range: "0 \<le> Time_Weekday date" "Time_Weekday date < 7"
    using Time_Weekday_range [of date] by simp_all
  have monday: "Time_Weekday (getWeekStart date) = Monday"
    unfolding getWeekStart_eq Time_Weekday_def dayNumber_AddDate Monday_def
    by presburger
  have day: "dayNumber (getWeekStart date)
      = dayNumber date - (Time_Weekday date - 1 + 7) mod 7"
    by (simp add: getWeekStart_eq dayNumber_AddDate Monday_def)
  have lower: "dayNumber date - 6 \<le> dayNumber (getWeekStart date)"
    unfolding day using range by presburger
  have upper: "dayNumber (getWeekStart date) \<le> dayNumber date"
    unfolding day using range by presburger
  have on_monday: "Time_Weekday date = Monday \<longrightarrow>
      dayNumber (getWeekStart date) = dayNumber date"
    unfolding day by (simp add: Monday_def)
  have on_sunday: "Time_Weekday date = Sunday \<longrightarrow>
      dayNumber (getWeekStart date) = dayNumber date - 6"
    unfolding day by (simp add: Sunday_def)
  from getWeekStart_eq monday lower upper on_monday on_sunday show ?thesis
    by blast
qed

theorem getWeekStart_rounds_down_to_Monday_witness:
  "Time_Weekday (clock 19723 10 0) = Monday
   \<and> dayNumber (getWeekStart (clock 19723 10 0)) = dayNumber (clock 19723 10 0)
   \<and> Time_Weekday (clock 19729 10 0) = Sunday
   \<and> dayNumber (getWeekStart (clock 19729 10 0)) = dayNumber (clock 19729 10 0) - 6"
proof -
  have mon: "Time_Weekday (clock 19723 10 0) = Monday"
    by (simp add: time_defs)
  have sun: "Time_Weekday (clock 19729 10 0) = Sunday"
    by (simp add: time_defs)
  show ?thesis
    using mon sun getWeekStart_rounds_down_to_Monday [of "clock 19723 10 0"]
      getWeekStart_rounds_down_to_Monday [of "clock 19729 10 0"]
    by blast
qed

section \<open>The clipper on bookings inside the window\<close>

text \<open>
  Claim C3 says that a booking whose start and end both lie within
  \<open>[startHour, endHour)\<close> on the booking's own calendar day is counted with its full
  duration. Two guards of the code stand against that. A booking that ends before it
  starts has a negative duration and is counted with 0 hours. A booking that starts at
  00:00 is taken for an all-day entry and counted with the whole window, which shows once
  the window itself opens at hour 0.
\<close>

theorem hours_inside_window_counterexample:
  "(6 \<le> Time_Hour (StartTime (booking (clock 19723 10 0) (clock 19723 9 0)))
    \<and> Time_Hour (StartTime (booking (clock 19723 10 0) (clock 19723 9 0))) < 18
    \<and> 6 \<le> Time_Hour (EndTime (booking (clock 19723 10 0) (clock 19723 9 0)))
    \<and> Time_Hour (EndTime (booking (clock 19723 10 0) (clock 19723 9 0))) < 18
    \<and> dayNumber (EndTime (booking (clock 19723 10 0) (clock 19723 9 0)))
        = dayNumber (StartTime (booking (clock 19723 10 0) (clock 19723 9 0)))
    \<and> calculateBookingHoursInRange (booking (clock 19723 10 0) (clock 19723 9 0)) 6 18 = 0
    \<and> Duration_Hours (Duration (booking (clock 19723 10 0) (clock 19723 9 0))) = - 1)
   \<and> (0 \<le> Time_Hour (StartTime (booking (clock 19723 0 0) (clock 19723 1 0)))
    \<and> Time_Hour (StartTime (booking (clock 19723 0 0) (clock 19723 1 0))) < 18
    \<and> 0 \<le> Time_Hour (EndTime (booking (clock 19723 0 0) (clock 19723 1 0)))
    \<and> Time_Hour (EndTime (booking (clock 19723 0 0) (clock 19723 1 0))) < 18
    \<and> dayNumber (EndTime (booking (clock 19723 0 0) (clock 19723 1 0)))
        = dayNumber (StartTime (booking (clock 19723 0 0) (clock 19723 1 0)))
    \<and> calculateBookingHoursInRange (booking (clock 19723 0 0) (clock 19723 1 0)) 0 18 = 18
    \<and> Duration_Hours (Duration (booking (clock 19723 0 0) (clock 19723 1 0))) = 1)"
  by (simp add: calculateBookingHoursInRange_def Let_def Duration_Hours_eq time_defs)

text \<open>
  Claim C3 as amended. For every booking that is not flagged all-day and does not end
  before it starts, whose start and end both lie within \<open>[startHour, endHour)\<close> on the
  same calendar day, \<^verbatim>\<open>calculateBookingHoursInRange\<close> returns the booking's
  \<^verbatim>\<open>Duration\<close> in hours, the duration being end minus start as the normalizer
  stores it.
\<close>

theorem hours_inside_window:
  assumes "\<not> (Time_Hour (StartTime b) = 0 \<and> Time_Minute (StartTime b) = 0)"
    and "unixNano (StartTime b) \<le> unixNano (EndTime b)"
    and "startHour \<le> Time_Hour (StartTime b)" and "Time_Hour (StartTime b) < endHour"
    and "startHour \<le> Time_Hour (EndTime b)" and "Time_Hour (EndTime b) < endHour"
    and "dayNumber (EndTime b) = dayNumber (StartTime b)"
    and "Duration b = Time_Sub (EndTime b) (StartTime b)"
  shows "calculateBookingHoursInRange b startHour endHour = Duration_Hours (Duration b)"
proof -
  have "0 \<le> Time_Sub (EndTime b) (StartTime b)"
    using assms(2) by (simp add: Time_Sub_def Let_def minDuration_def maxDuration_def)
  then have "\<not> Duration_Hours (Time_Sub (EndTime b) (StartTime b)) < 0"
    by (simp add: Duration_Hours_nonneg not_less)
  then show ?thesis
    using assms by (auto simp add: calculateBookingHoursInRange_def Let_def)
qed

theorem hours_inside_window_witness:
  "calculateBookingHoursInRange (booking (clock 19723 8 0) (clock 19723 10 0)) 6 18
     = Duration_Hours (Duration (booking (clock 19723 8 0) (clock 19723 10 0)))
   \<and> Duration_Hours (Duration (booking (clock 19723 8 0) (clock 19723 10 0))) = 2"
proof -
  have "calculateBookingHoursInRange (booking (clock 19723 8 0) (clock 19723 10 0)) 6 18
     = Duration_Hours (Duration (booking (clock 19723 8 0) (clock 19723 10 0)))"
    by (rule hours_inside_window) (simp_all add: time_defs)
  moreover have "Duration_Hours (Duration (booking (clock 19723 8 0) (clock 19723 10 0))) = 2"
    by (simp add: Duration_Hours_eq time_defs)
  ultimately show ?thesis by simp
qed

section \<open>The clipper on bookings outside the window\<close>

text \<open>
  Claim C2 says that a booking lying entirely at or after \<open>endHour\<close> on its day is
  counted with 0 hours. The end of a booking is pulled back to \<open>endHour:00\<close> only when
  its hour is greater than \<open>endHour\<close>, so an end such as 18:30 stays where it is under a
  window that closes at 18. The booking Monday 18:00 to 18:30 is counted with half an
  hour under the window 6 to 18.
\<close>

theorem booking_after_closing_is_counted:
  "Time_Hour (StartTime (booking (clock 19723 18 0) (clock 19723 18 30))) = 18
   \<and> Time_Minute (StartTime (booking (clock 19723 18 0) (clock 19723 18 30))) = 0
   \<and> Time_Hour (EndTime (booking (clock 19723 18 0) (clock 19723 18 30))) = 18
   \<and> Time_Minute (EndTime (booking (clock 19723 18 0) (clock 19723 18 30))) = 30
   \<and> dayNumber (EndTime (booking (clock 19723 18 0) (clock 19723 18 30)))
       = dayNumber (StartTime (booking (clock 19723 18 0) (clock 19723 18 30)))
   \<and> calculateBookingHoursInRange (booking (clock 19723 18 0) (clock 19723 18 30)) 6 18
       = 1 / 2"
  by (simp add: calculateBookingHoursInRange_def Let_def Duration_Hours_eq time_defs)

text \<open>
  The defect is confined to the closing hour. A booking that stays on one calendar day
  in one zone and is not flagged all-day is counted with 0 hours when it ends in an hour
  before \<open>startHour\<close>, and also when it starts at or after \<open>endHour\<close> and ends in an
  hour after \<open>endHour\<close>.
\<close>

lemma closed_window_counts_nothing:
  assumes allday: "\<not> (Time_Hour (StartTime b) = 0 \<and> Time_Minute (StartTime b) = 0)"
    and day: "dayNumber (EndTime b) = dayNumber (StartTime b)"
    and zone: "zoneOffset (EndTime b) = zoneOffset (StartTime b)"
    and window: "startHour \<le> endHour"
    and outside: "Time_Hour (EndTime b) < startHour
         \<or> (endHour \<le> Time_Hour (StartTime b) \<and> endHour < Time_Hour (EndTime b))"
  shows "calculateBookingHoursInRange b startHour endHour = 0"
proof -
  define effectiveStart where "effectiveStart =
    (if Time_Hour (StartTime b) < startHour
     then Time_Date (dayNumber (StartTime b)) startHour 0 0 0 (zoneOffset (StartTime b))
     else StartTime b)"
  define effectiveEnd where "effectiveEnd =
    (if endHour < Time_Hour (EndTime b)
     then Time_Date (dayNumber (EndTime b)) endHour 0 0 0 (zoneOffset (EndTime b))
     else EndTime b)"
  have "unixNano effectiveEnd \<le> unixNano effectiveStart"
    using outside
  proof
    assume before: "Time_Hour (EndTime b) < startHour"
    then have "effectiveEnd = EndTime b"
      using window by (simp add: effectiveEnd_def)
    moreover have "unixNano (EndTime b) \<le> unixNano effectiveStart"
      using before unixNano_hour_bounds [of "EndTime b"] unixNano_hour_bounds [of "StartTime b"]
        day zone
      by (simp add: effectiveStart_def Time_Date_def nsPerDay_def nsPerHour_def
          nsPerSecond_def)
    ultimately show ?thesis by simp
  next
    assume after: "endHour \<le> Time_Hour (StartTime b) \<and> endHour < Time_Hour (EndTime b)"
    then have "effectiveStart = StartTime b"
      using window by (simp add: effectiveStart_def)
    moreover have "unixNano effectiveEnd \<le> unixNano (StartTime b)"
      using after unixNano_hour_bounds [of "StartTime b"] day zone
      by (simp add: effectiveEnd_def Time_Date_def nsPerDay_def nsPerHour_def
          nsPerSecond_def)
    ultimately show ?thesis by simp
  qed
  then have "(if Duration_Hours (Time_Sub effectiveEnd effectiveStart) < 0 then 0
      else Duration_Hours (Time_Sub effectiveEnd effectiveStart)) = 0"
    by (rule hours_of_backward_interval)
  moreover have "(Time_Hour (StartTime b) = 0 \<and> Time_Minute (StartTime b) = 0) = False"
    using allday by simp
  then have "calculateBookingHoursInRange b startHour endHour =
      (if Duration_Hours (Time_Sub effectiveEnd effectiveStart) < 0 then 0
       else Duration_Hours (Time_Sub effectiveEnd effectiveStart))"
    by (simp only: calculateBookingHoursInRange_def if_False Let_def effectiveStart_def
        effectiveEnd_def)
  ultimately show ?thesis by simp
qed

section \<open>The clipper on bookings that span several days\<close>

text \<open>
  Claim C10. There is a booking, not flagged all-day, that one call of
  \<^verbatim>\<open>calculateBookingHoursInRange\<close> counts with more than \<open>endHour - startHour\<close> hours.
  The end is clamped on its own calendar day, so the days between start and end are
  counted in full: Monday 07:00 to Wednesday 17:00 gives 58 hours under the window 6 to
  18.
\<close>

theorem multi_day_booking_exceeds_window:
  "\<exists>b startHour endHour.
     startHour < endHour
     \<and> Time_Hour (StartTime b) \<noteq> 0
     \<and> Time_Weekday (StartTime b) = Monday
     \<and> dayNumber (EndTime b) = dayNumber (StartTime b) + 2
     \<and> calculateBookingHoursInRange b startHour endHour = 58
     \<and> of_int (endHour - startHour) < calculateBookingHoursInRange b startHour endHour"
proof -
  have "(6::int) < 18
     \<and> Time_Hour (StartTime (booking (clock 19723 7 0) (clock 19725 17 0))) \<noteq> 0
     \<and> Time_Weekday (StartTime (booking (clock 19723 7 0) (clock 19725 17 0))) = Monday
     \<and> dayNumber (EndTime (booking (clock 19723 7 0) (clock 19725 17 0)))
         = dayNumber (StartTime (booking (clock 19723 7 0) (clock 19725 17 0))) + 2
     \<and> calculateBookingHoursInRange (booking (clock 19723 7 0) (clock 19725 17 0)) 6 18 = 58
     \<and> of_int (18 - 6)
         < calculateBookingHoursInRange (booking (clock 19723 7 0) (clock 19725 17 0)) 6 18"
    by (simp add: calculateBookingHoursInRange_def Let_def Duration_Hours_eq time_defs)
  then show ?thesis by blast
qed

section \<open>The normalizer keeps the well-formed records\<close>

text \<open>
  Claim C9. For every sequence of raw event records, \<^verbatim>\<open>parseBookings\<close> returns, in
  input order, exactly one booking for each record that has a start and an end marker
  whose values both parse, and nothing for any other record. Every booking it returns is
  complete: title (or the placeholder), both timestamps and the duration between them.
\<close>

theorem parseBookings_keeps_well_formed_records:
  "parseBookings parseRFC3339 parseDate events
     = map (bookingOfRecord parseRFC3339 parseDate)
         (filter (wellFormedRecord parseRFC3339 parseDate) events)"
  by (simp add: parseBookings_def parseBookings_loop)

theorem parseBookings_keeps_well_formed_records_witness:
  "parseBookings exampleRFC3339 exampleDate exampleEvents
     = [\<lparr>Title = ''Coaching'', StartTime = clock 19723 8 0, EndTime = clock 19723 10 0,
         Duration = 7200000000000\<rparr>,
        \<lparr>Title = ''(No title)'', StartTime = clock 19724 0 0, EndTime = clock 19725 0 0,
         Duration = 86400000000000\<rparr>]"
proof -
  have "map (bookingOfRecord exampleRFC3339 exampleDate)
         (filter (wellFormedRecord exampleRFC3339 exampleDate) exampleEvents)
     = [\<lparr>Title = ''Coaching'', StartTime = clock 19723 8 0, EndTime = clock 19723 10 0,
         Duration = 7200000000000\<rparr>,
        \<lparr>Title = ''(No title)'', StartTime = clock 19724 0 0, EndTime = clock 19725 0 0,
         Duration = 86400000000000\<rparr>]"
    by (simp add: exampleEvents_def exampleRFC3339_def exampleDate_def wellFormedRecord_def
        bookingOfRecord_def markerTime_def Let_def time_defs)
  then show ?thesis
    using parseBookings_keeps_well_formed_records [of exampleRFC3339 exampleDate exampleEvents]
    by simp
qed

section \<open>Daily totals add up to the hours of the bookings\<close>



section \<open>Weekly totals\<close>

text \<open>
  Claim C7. Every entry that \<^verbatim>\<open>calculateWeeklyStats\<close> returns has a
  \<^verbatim>\<open>TotalHours\<close> equal to the sum of the \<^verbatim>\<open>TotalHours\<close> of the entries in its
  \<^verbatim>\<open>Days\<close>.
\<close>

theorem week_total_is_sum_of_its_days:
  "\<forall>w \<in> set (calculateWeeklyStats weekOrder dayOrder bookings config).
     WeekTotalHours w = (\<Sum>day\<leftarrow>Days w. TotalHours day)"
  using calculateWeeklyStats_entry by blast

theorem week_total_is_sum_of_its_days_witness:
  "length exampleWeeks = 1
   \<and> map TotalHours (Days (hd exampleWeeks)) = [12, 2]
   \<and> WeekTotalHours (hd exampleWeeks) = 12 + 2"
proof -
  have "WeekTotalHours (hd exampleWeeks) = (\<Sum>day\<leftarrow>Days (hd exampleWeeks). TotalHours day)"
    using exampleWeeks_hd
      week_total_is_sum_of_its_days
        [of "[19723]" "\<lambda>weekKey. [19724, 19723]" exampleBookings defaultConfig]
    unfolding exampleWeeks_def by blast
  then show ?thesis
    using exampleWeeks_length exampleWeeks_days by simp
qed

text \<open>
  Claim C8. Every entry that \<^verbatim>\<open>calculateWeeklyStats\<close> returns has a
  \<^verbatim>\<open>Utilization\<close> of \<open>TotalHours / (7 * (endHour - startHour)) * 100\<close>: the
  denominator counts seven operating days, also for a week in which fewer days have a
  booking. The window is taken with \<open>startHour < endHour\<close>, so that the division is one
  by a positive number.
\<close>

theorem week_utilization_assumes_seven_days:
  assumes "StartHour config < EndHour config"
  shows "\<forall>w \<in> set (calculateWeeklyStats weekOrder dayOrder bookings config).
     WeekUtilization w
       = WeekTotalHours w / of_int (7 * (EndHour config - StartHour config)) * 100"
  using calculateWeeklyStats_entry by blast


theorem week_utilization_assumes_seven_days_witness:
  "StartHour defaultConfig < EndHour defaultConfig
   \<and> length (Days (hd exampleWeeks)) = 2
   \<and> WeekTotalHours (hd exampleWeeks) = 14
   \<and> WeekUtilization (hd exampleWeeks) = 14 / (7 * 12) * 100"
proof -
  have window: "StartHour defaultConfig < EndHour defaultConfig"
    by (simp add: defaultConfig_def)
  have days: "length (Days (hd exampleWeeks)) = 2"
    using exampleWeeks_days [THEN arg_cong, of length] by simp
  have "WeekUtilization (hd exampleWeeks)
      = WeekTotalHours (hd exampleWeeks)
          / of_int (7 * (EndHour defaultConfig - StartHour defaultConfig)) * 100"
    using exampleWeeks_hd
      week_utilization_assumes_seven_days [OF window,
        of "[19723]" "\<lambda>weekKey. [19724, 19723]" exampleBookings]
    unfolding exampleWeeks_def by blast
  then have "WeekUtilization (hd exampleWeeks) = 14 / (7 * 12) * 100"
    by (simp add: exampleWeeks_total defaultConfig_def)
  then show ?thesis
    using window days exampleWeeks_total by simp
qed

end
